theory Spec2Isabelle
  imports Complex_Main "HOL-Library.Char_ord" "HOL-Library.List_Lexorder"
begin

section \<open>The service registry of doublethink/services.py\<close>

text \<open>
  \<open>ServiceRegistry\<close> keeps one document per service in the rethinkdb table
  \<open>services\<close>. The methods of the class are embedded as functions over an explicit
  world: the table, the clock, and the connection to the database. A Python dict is a
  map from field names to values; an exception is the \<open>Inl\<close> of a sum.
\<close>

subsection \<open>Values and documents\<close>

text \<open>
  The values a status dict holds. \<open>VNum\<close> is a Python \<open>int\<close> or a finite \<open>float\<close>,
  by its exact value (rethinkdb has the one type NUMBER for both, and Python compares
  them by value); \<open>VTime\<close> is a \<open>datetime\<close>, in seconds since the epoch. The floats
  \<open>nan\<close> and \<open>inf\<close> and the rounding of floats are outside this model.
\<close>

datatype val = VNone | VBool bool | VNum rat | VStr string | VTime rat

type_synonym row = "string \<rightharpoonup> val"

datatype error =
    ValidationError string  \<comment> \<open>the \<open>Exception\<close> raised for a bad argument, with its message\<close>
  | ReqlDriverError         \<comment> \<open>the query did not reach the database\<close>
  | ReqlRuntimeError        \<comment> \<open>the database failed to evaluate the query\<close>
  | IndexError
  | AttributeError

text \<open>Python: \<open>isinstance(val, float) or isinstance(val, int)\<close>. \<open>bool\<close> is a subclass of \<open>int\<close>.\<close>

fun is_float_or_int :: "val \<Rightarrow> bool" where
  "is_float_or_int (VNum q) = True"
| "is_float_or_int (VBool b) = True"
| "is_float_or_int v = False"

text \<open>Python: \<open>val <= 0\<close>, on the values that pass \<open>is_float_or_int\<close> (\<open>True\<close> is 1).\<close>

fun le_zero :: "val \<Rightarrow> bool" where
  "le_zero (VNum q) = (q \<le> 0)"
| "le_zero (VBool b) = (\<not> b)"
| "le_zero v = False"

text \<open>The numeric value Python gives a number; \<open>None\<close> for every other value.\<close>

fun num_of :: "val \<Rightarrow> rat option" where
  "num_of (VNum q) = Some q"
| "num_of (VBool b) = Some (if b then 1 else 0)"
| "num_of v = None"

text \<open>Python: \<open>a == b\<close>. Numbers are equal by value (\<open>True == 1\<close>, \<open>1 == 1.0\<close>).\<close>

definition py_eq :: "val \<Rightarrow> val \<Rightarrow> bool" where
  "py_eq a b =
     (case (num_of a, num_of b) of
        (Some x, Some y) \<Rightarrow> x = y
      | (None, None) \<Rightarrow> a = b
      | _ \<Rightarrow> False)"

text \<open>Python: \<open>d.get(k)\<close>, which is \<open>None\<close> for a missing key.\<close>

definition dict_get :: "row \<Rightarrow> string \<Rightarrow> val" where
  "dict_get d k = (case d k of None \<Rightarrow> VNone | Some v \<Rightarrow> v)"

text \<open>Python: \<open>if not k in d: d[k] = v\<close>.\<close>

definition set_if_absent :: "row \<Rightarrow> string \<Rightarrow> val \<Rightarrow> row" where
  "set_if_absent d k v = (if d k = None then d(k \<mapsto> v) else d)"

subsection \<open>The ReQL expressions of the queries\<close>

text \<open>
  ReQL orders values of different types by the name of the type
  (BOOL, NULL, NUMBER, PTYPE<TIME>, STRING) and values of one type by value. A
  comparison never fails; arithmetic on the wrong types does, and so does reading a
  field the document does not have.
\<close>

datatype reql_error = NonExistence | TypeError

fun type_rank :: "val \<Rightarrow> nat" where
  "type_rank (VBool b) = 0"
| "type_rank VNone = 1"
| "type_rank (VNum q) = 2"
| "type_rank (VTime t) = 3"
| "type_rank (VStr s) = 4"

fun reql_lt :: "val \<Rightarrow> val \<Rightarrow> bool" where
  "reql_lt (VBool a) (VBool b) = (a < b)"
| "reql_lt (VNum a) (VNum b) = (a < b)"
| "reql_lt (VTime a) (VTime b) = (a < b)"
| "reql_lt (VStr a) (VStr b) = (a < b)"
| "reql_lt a b = (type_rank a < type_rank b)"

text \<open>\<open>a.sub(b)\<close>: TIME - NUMBER is a TIME, TIME - TIME is a NUMBER of seconds.\<close>

fun reql_sub :: "val \<Rightarrow> val \<Rightarrow> reql_error + val" where
  "reql_sub (VTime a) (VNum b) = Inr (VTime (a - b))"
| "reql_sub (VTime a) (VTime b) = Inr (VNum (a - b))"
| "reql_sub (VNum a) (VNum b) = Inr (VNum (a - b))"
| "reql_sub a b = Inl TypeError"

fun reql_mul :: "val \<Rightarrow> val \<Rightarrow> reql_error + val" where
  "reql_mul (VNum a) (VNum b) = Inr (VNum (a * b))"
| "reql_mul a b = Inl TypeError"

text \<open>\<open>row[k]\<close> in a query.\<close>

definition field :: "row \<Rightarrow> string \<Rightarrow> reql_error + val" where
  "field r k = (case r k of None \<Rightarrow> Inl NonExistence | Some v \<Rightarrow> Inr v)"

text \<open>
  \<open>lambda row: row['last_heartbeat'] > now - row['ttl']\<close>, the test of both queries of
  \<open>unique_service\<close>; \<open>now\<close> is the Python \<open>datetime\<close> captured by the caller.
\<close>

definition heartbeat_newer :: "rat \<Rightarrow> row \<Rightarrow> reql_error + bool" where
  "heartbeat_newer now r =
     (case field r ''last_heartbeat'' of
        Inl e \<Rightarrow> Inl e
      | Inr lh \<Rightarrow>
          (case field r ''ttl'' of
             Inl e \<Rightarrow> Inl e
           | Inr t \<Rightarrow>
               (case reql_sub (VTime now) t of
                  Inl e \<Rightarrow> Inl e
                | Inr bound \<Rightarrow> Inr (reql_lt bound lh))))"


text \<open>
  \<open>lambda svc: r.now().sub(svc["last_heartbeat"]).gt(svc["ttl"] * ttls_until_deletion)\<close>,
  the test of \<open>purge_stale_services\<close>.
\<close>

definition since_heartbeat_gt_ttls :: "rat \<Rightarrow> rat \<Rightarrow> row \<Rightarrow> reql_error + bool" where
  "since_heartbeat_gt_ttls now ttls_until_deletion svc =
     (case field svc ''last_heartbeat'' of
        Inl e \<Rightarrow> Inl e
      | Inr lh \<Rightarrow>
          (case reql_sub (VTime now) lh of
             Inl e \<Rightarrow> Inl e
           | Inr age \<Rightarrow>
               (case field svc ''ttl'' of
                  Inl e \<Rightarrow> Inl e
                | Inr t \<Rightarrow>
                    (case reql_mul t (VNum ttls_until_deletion) of
                       Inl e \<Rightarrow> Inl e
                     | Inr bound \<Rightarrow> Inr (reql_lt bound age)))))"

text \<open>
  \<open>.filter(f)\<close>: a document on which \<open>f\<close> reads a missing field is left out (the
  default of \<open>filter\<close>); any other error aborts the query.
\<close>

fun reql_filter :: "(row \<Rightarrow> reql_error + bool) \<Rightarrow> row list \<Rightarrow> error + row list" where
  "reql_filter f [] = Inr []"
| "reql_filter f (r # rs) =
     (case f r of
        Inl TypeError \<Rightarrow> Inl ReqlRuntimeError
      | Inl NonExistence \<Rightarrow> reql_filter f rs
      | Inr b \<Rightarrow>
          (case reql_filter f rs of
             Inl e \<Rightarrow> Inl e
           | Inr keep \<Rightarrow> Inr (if b then r # keep else keep)))"




subsection \<open>The world: table, clock and connection\<close>

text \<open>
  \<open>table\<close> is the \<open>services\<close> table, its documents in the order a scan returns them,
  with the primary key in the field \<open>id\<close>. Every query sent counts in \<open>ops\<close>, and the
  query numbered \<open>n\<close> fails to reach the database when \<open>fails n\<close>. A reading of the
  time (\<open>doublethink.utcnow()\<close> in Python, \<open>r.now()\<close> in a query, which the database
  evaluates once per query) takes the next value of \<open>clock\<close>. The table is one copy,
  so that \<open>read_mode='majority'\<close> reads what any read does. \<open>uuids\<close> are the keys the
  database generates, \<open>hostname\<close> and \<open>pid\<close> what \<open>socket.gethostname()\<close> and
  \<open>os.getpid()\<close> return, \<open>log\<close> the messages of \<open>logger.error\<close>.
\<close>

record world =
  table :: "row list"
  ops :: nat
  fails :: "nat \<Rightarrow> bool"
  clock :: "nat \<Rightarrow> rat"
  ticks :: nat
  uuids :: "nat \<Rightarrow> string"
  issued :: nat
  hostname :: string
  pid :: int
  log :: "string list"

definition utcnow :: "world \<Rightarrow> rat \<times> world" where
  "utcnow w = (clock w (ticks w), w\<lparr>ticks := Suc (ticks w)\<rparr>)"

text \<open>\<open>.run()\<close>: the query is sent; \<open>Inl\<close> when it does not arrive.\<close>

definition run :: "world \<Rightarrow> (error + unit) \<times> world" where
  "run w = (if fails w (ops w) then Inl ReqlDriverError else Inr (), w\<lparr>ops := Suc (ops w)\<rparr>)"

text \<open>\<open>.get(key)\<close>: the document with that primary key, or null.\<close>

definition get_row :: "row list \<Rightarrow> val \<Rightarrow> row option" where
  "get_row rs key = find (\<lambda>r. r ''id'' = Some key) rs"

text \<open>Writing \<open>d\<close> in the place of the document with primary key \<open>key\<close>.\<close>

definition put_row :: "row list \<Rightarrow> val \<Rightarrow> row \<Rightarrow> row list" where
  "put_row rs key d = map (\<lambda>r. if r ''id'' = Some key then d else r) rs"


text \<open>\<open>.get_all(key)\<close>: the documents with that primary key.\<close>

definition get_all_id :: "row list \<Rightarrow> val \<Rightarrow> row list" where
  "get_all_id rs key = filter (\<lambda>r. r ''id'' = Some key) rs"

subsection \<open>The queries\<close>

text \<open>
  \<open>table('services').insert(doc, conflict='replace', return_changes=True)\<close>. The
  document holds the term \<open>r.now()\<close>, so it is given as a function of the time the
  database evaluates that term to. The result is the \<open>new_val\<close> of each entry of
  \<open>result['changes']\<close>: one entry for a document written, none when the document was
  rejected (null as primary key) or is equal to the stored one. A document without
  \<open>id\<close> gets a key generated by the database.
\<close>

definition insert_replace :: "world \<Rightarrow> (rat \<Rightarrow> row) \<Rightarrow> (error + row list) \<times> world" where
  "insert_replace w doc =
     (case run w of
        (Inl e, w1) \<Rightarrow> (Inl e, w1)
      | (Inr _, w1) \<Rightarrow>
          (case utcnow w1 of
             (now, w2) \<Rightarrow>
               (let d = doc now in
                case d ''id'' of
                  None \<Rightarrow>
                    (let d' = d(''id'' \<mapsto> VStr (uuids w2 (issued w2)))
                     in (Inr [d'], w2\<lparr>table := table w2 @ [d'], issued := Suc (issued w2)\<rparr>))
                | Some key \<Rightarrow>
                    if key = VNone then (Inr [], w2)
                    else
                      (case get_row (table w2) key of
                         None \<Rightarrow> (Inr [d], w2\<lparr>table := table w2 @ [d]\<rparr>)
                       | Some old \<Rightarrow>
                           if old = d then (Inr [], w2)
                           else (Inr [d], w2\<lparr>table := put_row (table w2) key d\<rparr>)))))"

text \<open>
  The function given to \<open>replace\<close>:
  \<open>lambda row: r.branch(r.branch(row, row['last_heartbeat'] > now - row['ttl'], False), row, candidate)\<close>.
  \<open>row\<close> is null when there is no document with the key.
\<close>

definition replace_choice :: "rat \<Rightarrow> row \<Rightarrow> row option \<Rightarrow> reql_error + row" where
  "replace_choice now candidate row =
     (case row of
        None \<Rightarrow> Inr candidate
      | Some r \<Rightarrow>
          (case heartbeat_newer now r of
             Inl e \<Rightarrow> Inl e
           | Inr b \<Rightarrow> Inr (if b then r else candidate)))"

text \<open>
  \<open>table('services', read_mode='majority').get(role).replace(..., return_changes='always')\<close>,
  one atomic step of the database. The result is the \<open>new_val\<close> of each entry of
  \<open>result['changes']\<close>; with \<open>'always'\<close> there is one entry whatever happened. When
  the function fails on the document, or gives a document with another primary key,
  the database counts an error and leaves the document as it is.
\<close>

definition cond_replace :: "world \<Rightarrow> string \<Rightarrow> rat \<Rightarrow> row \<Rightarrow> (error + row option list) \<times> world" where
  "cond_replace w role now candidate =
     (case run w of
        (Inl e, w1) \<Rightarrow> (Inl e, w1)
      | (Inr _, w1) \<Rightarrow>
          (let old = get_row (table w1) (VStr role) in
           case replace_choice now candidate old of
             Inl e \<Rightarrow> (Inr [old], w1)
           | Inr d \<Rightarrow>
               if d ''id'' \<noteq> Some (VStr role) then (Inr [old], w1)
               else
                 (case old of
                    None \<Rightarrow> (Inr [Some d], w1\<lparr>table := table w1 @ [d]\<rparr>)
                  | Some r \<Rightarrow> (Inr [Some d], w1\<lparr>table := put_row (table w1) (VStr role) d\<rparr>))))"

text \<open>
  \<open>table('services').get(role).update(d)\<close>: the fields of \<open>d\<close> are merged into the
  document; nothing happens when there is no document with the key.
\<close>

definition update_row :: "world \<Rightarrow> string \<Rightarrow> row \<Rightarrow> (error + unit) \<times> world" where
  "update_row w role d =
     (case run w of
        (Inl e, w1) \<Rightarrow> (Inl e, w1)
      | (Inr _, w1) \<Rightarrow>
          (case get_row (table w1) (VStr role) of
             None \<Rightarrow> (Inr (), w1)
           | Some old \<Rightarrow>
               if (old ++ d) ''id'' \<noteq> Some (VStr role) then (Inr (), w1)
               else (Inr (), w1\<lparr>table := put_row (table w1) (VStr role) (old ++ d)\<rparr>)))"

text \<open>
  \<open>list(table('services', read_mode='majority').get_all(role).filter(lambda row:
  row['last_heartbeat'] > now - row['ttl']).run())\<close>.
\<close>

definition get_all_newer :: "world \<Rightarrow> string \<Rightarrow> rat \<Rightarrow> (error + row list) \<times> world" where
  "get_all_newer w role now =
     (case run w of
        (Inl e, w1) \<Rightarrow> (Inl e, w1)
      | (Inr _, w1) \<Rightarrow>
          (reql_filter (heartbeat_newer now) (get_all_id (table w1) (VStr role)), w1))"

subsection \<open>heartbeat\<close>

fun first_missing :: "row \<Rightarrow> string list \<Rightarrow> string option" where
  "first_missing d [] = None"
| "first_missing d (f # fs) = (if d f = None then Some f else first_missing d fs)"

definition bad_ttl :: "val \<Rightarrow> bool" where
  "bad_ttl val = (\<not> is_float_or_int val \<or> le_zero val)"

text \<open>Lines 138 to 145: the exception \<open>heartbeat\<close> raises for its argument, if any.\<close>

definition heartbeat_check :: "row \<Rightarrow> error option" where
  "heartbeat_check status_info =
     (case first_missing status_info [''role'', ''ttl'', ''load''] of
        Some f \<Rightarrow> Some (ValidationError (''status_info is missing required field '' @ f))
      | None \<Rightarrow>
          if bad_ttl (dict_get status_info ''ttl'')
          then Some (ValidationError ''ttl must be a number > 0'')
          else None)"

text \<open>Lines 146 to 153: the copy that is sent, \<open>r.now()\<close> standing where \<open>now\<close> is.\<close>

definition updated_status_info :: "world \<Rightarrow> row \<Rightarrow> rat \<Rightarrow> row" where
  "updated_status_info w status_info now =
     (let u = status_info(''last_heartbeat'' \<mapsto> VTime now);
          u = set_if_absent u ''first_heartbeat'' (dict_get u ''last_heartbeat'');
          u = set_if_absent u ''host'' (VStr (hostname w));
          u = set_if_absent u ''pid'' (VNum (of_int (pid w)))
      in u)"

text \<open>
  The result is what \<open>heartbeat\<close> returns or raises, the caller's dict \<open>status_info\<close>
  after the call, and the world after the call. The bare \<open>except\<close> catches the
  failure of the query and the \<open>IndexError\<close> of \<open>result['changes'][0]\<close> alike.
\<close>

definition heartbeat :: "world \<Rightarrow> row \<Rightarrow> (error + row) \<times> row \<times> world" where
  "heartbeat w status_info =
     (case heartbeat_check status_info of
        Some e \<Rightarrow> (Inl e, status_info, w)
      | None \<Rightarrow>
          (case insert_replace w (updated_status_info w status_info) of
             (Inr (new_val # cs), w1) \<Rightarrow> (Inr new_val, status_info, w1)
           | (_, w1) \<Rightarrow>
               (Inr status_info, status_info,
                w1\<lparr>log := log w1 @ [''error updating service registry'']\<rparr>)))"

subsection \<open>unique_service\<close>

text \<open>Lines 232 to 237, on the candidate itself.\<close>

definition stamp :: "world \<Rightarrow> rat \<Rightarrow> row \<Rightarrow> row" where
  "stamp w now candidate =
     (let c = candidate(''first_heartbeat'' \<mapsto> VTime now);
          c = c(''last_heartbeat'' \<mapsto> VTime now);
          c = set_if_absent c ''host'' (VStr (hostname w));
          c = set_if_absent c ''pid'' (VNum (of_int (pid w)))
      in c)"

text \<open>
  Lines 249 and 250: \<open>all([new_val.get(k) == candidate[k] for k in candidate
  if k not in ('first_heartbeat', 'last_heartbeat')])\<close>.
\<close>

definition is_unique_service :: "row \<Rightarrow> row \<Rightarrow> bool" where
  "is_unique_service new_val candidate =
     (\<forall>k \<in> dom candidate - {''first_heartbeat'', ''last_heartbeat''}.
        py_eq (dict_get new_val k) (dict_get candidate k))"

text \<open>
  Lines 224 to 253, the block under \<open>if candidate is not None\<close>: what it raises, if
  anything, the caller's dict \<open>candidate\<close> after it, and the world after it.
\<close>

definition claim :: "world \<Rightarrow> string \<Rightarrow> rat \<Rightarrow> row \<Rightarrow> (error + unit) \<times> row \<times> world" where
  "claim w role now candidate =
     (let c1 = candidate(''id'' \<mapsto> VStr role) in
      case c1 ''ttl'' of
        None \<Rightarrow> (Inl (ValidationError ''candidate is missing required field ttl''), c1, w)
      | Some val \<Rightarrow>
          if bad_ttl val then (Inl (ValidationError ''ttl must be a number > 0''), c1, w)
          else
            (let c2 = stamp w now c1 in
             case cond_replace w role now c2 of
               (Inl e, w1) \<Rightarrow> (Inl e, c2, w1)
             | (Inr [], w1) \<Rightarrow> (Inl IndexError, c2, w1)
             | (Inr (None # cs), w1) \<Rightarrow> (Inl AttributeError, c2, w1)
             | (Inr (Some new_val # cs), w1) \<Rightarrow>
                 if is_unique_service new_val c2 then
                   (let c3 = c2(''first_heartbeat'' := None) in
                    case update_row w1 role c3 of (res, w2) \<Rightarrow> (res, c3, w2))
                 else (Inr (), c2, w1)))"

text \<open>Lines 255 to 261.\<close>

definition lookup :: "world \<Rightarrow> string \<Rightarrow> rat \<Rightarrow> (error + row option) \<times> world" where
  "lookup w role now =
     (case get_all_newer w role now of
        (Inl e, w1) \<Rightarrow> (Inl e, w1)
      | (Inr [], w1) \<Rightarrow> (Inr None, w1)
      | (Inr (r # rs), w1) \<Rightarrow> (Inr (Some r), w1))"

text \<open>
  The result is what \<open>unique_service\<close> returns or raises, the caller's dict \<open>candidate\<close>
  after the call (\<open>None\<close> when none was given), and the world after the call.
\<close>

definition unique_service ::
    "world \<Rightarrow> string \<Rightarrow> row option \<Rightarrow> (error + row option) \<times> row option \<times> world" where
  "unique_service w role candidate =
     (case utcnow w of
        (now, w0) \<Rightarrow>
          (case candidate of
             None \<Rightarrow> (case lookup w0 role now of (res, w1) \<Rightarrow> (res, None, w1))
           | Some c \<Rightarrow>
               (case claim w0 role now c of
                  (Inl e, c', w1) \<Rightarrow> (Inl e, Some c', w1)
                | (Inr u, c', w1) \<Rightarrow>
                    (case lookup w1 role now of (res, w2) \<Rightarrow> (res, Some c', w2)))))"

subsection \<open>healthy_service and purge_stale_services\<close>


text \<open>
  \<open>purge_stale_services(ttls_until_deletion=2)\<close>: the argument is \<open>None\<close> for a call
  without one. The result is the count \<open>deleted\<close> of the summary the query returns.
  A sweep that the database aborts is modelled as deleting nothing.
\<close>

definition purge_stale_services :: "world \<Rightarrow> rat option \<Rightarrow> (error + nat) \<times> world" where
  "purge_stale_services w arg =
     (let ttls_until_deletion = (case arg of None \<Rightarrow> 2 | Some k \<Rightarrow> k) in
      case run w of
        (Inl e, w1) \<Rightarrow> (Inl e, w1)
      | (Inr _, w1) \<Rightarrow>
          (case utcnow w1 of
             (now, w2) \<Rightarrow>
               (case reql_filter (since_heartbeat_gt_ttls now ttls_until_deletion) (table w2) of
                  Inl e \<Rightarrow> (Inl e, w2)
                | Inr stale \<Rightarrow>
                    (Inr (length stale),
                     w2\<lparr>table := filter (\<lambda>r. r \<notin> set stale) (table w2)\<rparr>))))"

subsection \<open>The vocabulary of the specification\<close>

text \<open>
  The liveness predicate of the specification: a record is healthy at \<open>now\<close> iff
  \<open>now - last_heartbeat < ttl\<close>. It speaks of a record whose \<open>last_heartbeat\<close> is a
  time and whose \<open>ttl\<close> is a number, which \<open>timed\<close> says.
\<close>

definition healthy :: "rat \<Rightarrow> row \<Rightarrow> bool" where
  "healthy now r =
     (case (r ''last_heartbeat'', r ''ttl'') of
        (Some (VTime l), Some (VNum t)) \<Rightarrow> now - l < t
      | _ \<Rightarrow> False)"

definition timed :: "row \<Rightarrow> bool" where
  "timed r =
     (case (r ''last_heartbeat'', r ''ttl'') of
        (Some (VTime l), Some (VNum t)) \<Rightarrow> True
      | _ \<Rightarrow> False)"

text \<open>
  The test of the election, in the words of the specification: the incumbent is stale
  when its \<open>last_heartbeat\<close> is not newer than \<open>now - ttl\<close>.
\<close>

definition stale :: "rat \<Rightarrow> row \<Rightarrow> bool" where
  "stale now r =
     (case (r ''last_heartbeat'', r ''ttl'') of
        (Some (VTime l), Some (VNum t)) \<Rightarrow> l \<le> now - t
      | _ \<Rightarrow> False)"

text \<open>
  The test of the purge: the staleness \<open>now - last_heartbeat\<close> of the record exceeds
  \<open>k\<close> times its \<open>ttl\<close>.
\<close>

definition stale_beyond :: "rat \<Rightarrow> rat \<Rightarrow> row \<Rightarrow> bool" where
  "stale_beyond now k r =
     (case (r ''last_heartbeat'', r ''ttl'') of
        (Some (VTime l), Some (VNum t)) \<Rightarrow> now - l > k * t
      | _ \<Rightarrow> False)"


text \<open>\<open>id\<close> is the primary key of the table: no two documents share it.\<close>

definition primary_key :: "row list \<Rightarrow> bool" where
  "primary_key rs = distinct (map (\<lambda>r. r ''id'') rs)"

text \<open>A number greater than zero, a number being what Python counts as one.\<close>

definition positive_number :: "val \<Rightarrow> bool" where
  "positive_number v = (case num_of v of None \<Rightarrow> False | Some q \<Rightarrow> 0 < q)"

subsection \<open>Example worlds\<close>

text \<open>
  A database that answers every query, holding the documents \<open>rs\<close>, at a time when
  the clock reads 1000, 1001, ...
\<close>

definition example_world :: "row list \<Rightarrow> world" where
  "example_world rs =
     \<lparr>table = rs, ops = 0, fails = (\<lambda>n. False), clock = (\<lambda>n. 1000 + of_nat n), ticks = 0,
      uuids = (\<lambda>n. replicate (Suc n) CHR ''u''), issued = 0,
      hostname = ''host1'', pid = 4242, log = []\<rparr>"

text \<open>The same, with a database that no query reaches.\<close>

definition unreachable_world :: "row list \<Rightarrow> world" where
  "unreachable_world rs = (example_world rs)\<lparr>fails := (\<lambda>n. True)\<rparr>"

definition worker_status :: row where
  "worker_status = [''role'' \<mapsto> VStr ''worker'', ''load'' \<mapsto> VNum (1 / 2), ''ttl'' \<mapsto> VNum 60]"


text \<open>A candidate for a unique service that has a \<open>ttl\<close> and neither \<open>role\<close> nor \<open>load\<close>.\<close>

definition ttl_only_candidate :: row where
  "ttl_only_candidate = [''ttl'' \<mapsto> VNum 60]"


text \<open>The document of a unique service \<open>leader\<close> that last heartbeated at 990.\<close>

definition incumbent :: row where
  "incumbent =
     [''id'' \<mapsto> VStr ''leader'', ''ttl'' \<mapsto> VNum 60, ''host'' \<mapsto> VStr ''host1'',
      ''pid'' \<mapsto> VNum 4242, ''note'' \<mapsto> VStr ''primary'',
      ''first_heartbeat'' \<mapsto> VTime 900, ''last_heartbeat'' \<mapsto> VTime 990]"

text \<open>
  The document of a unique service \<open>leader\<close> whose heartbeat lapsed at 960, and a
  candidate of another host as \<open>unique_service\<close> sends it at 1000.
\<close>

definition lapsed :: row where
  "lapsed =
     [''id'' \<mapsto> VStr ''leader'', ''ttl'' \<mapsto> VNum 60, ''host'' \<mapsto> VStr ''host9'',
      ''first_heartbeat'' \<mapsto> VTime 100, ''last_heartbeat'' \<mapsto> VTime 900]"

definition challenger :: row where
  "challenger =
     [''id'' \<mapsto> VStr ''leader'', ''ttl'' \<mapsto> VNum 60, ''host'' \<mapsto> VStr ''host1'',
      ''first_heartbeat'' \<mapsto> VTime 1000, ''last_heartbeat'' \<mapsto> VTime 1000]"

text \<open>A candidate of another host than the incumbent's.\<close>

definition rival :: row where
  "rival = [''ttl'' \<mapsto> VNum 60, ''host'' \<mapsto> VStr ''host2'']"

text \<open>
  Three workers at time 1000: two that heartbeated at 990, and one silent since 700.
\<close>

definition long_dead :: row where
  "long_dead =
     [''id'' \<mapsto> VStr ''old'', ''role'' \<mapsto> VStr ''worker'', ''load'' \<mapsto> VNum 0,
      ''ttl'' \<mapsto> VNum 60, ''last_heartbeat'' \<mapsto> VTime 700]"



section \<open>Properties\<close>

subsection \<open>Auxiliary facts\<close>

subsubsection \<open>Records with a time and a ttl\<close>

lemma timedE:
  "timed r \<Longrightarrow> \<exists>l t. r ''last_heartbeat'' = Some (VTime l) \<and> r ''ttl'' = Some (VNum t)"
  by (auto simp: timed_def split: option.splits val.splits)

lemma heartbeat_newer_timed: "timed r \<Longrightarrow> heartbeat_newer now r = Inr (healthy now r)"
  by (auto dest!: timedE simp: heartbeat_newer_def healthy_def field_def)


lemma reql_filter_total:
  "\<forall>r\<in>set rs. f r = Inr (P r) \<Longrightarrow> reql_filter f rs = Inr (filter P rs)"
  by (induction rs) auto

subsubsection \<open>Rows by primary key\<close>

lemma get_all_id_primary_key:
  "primary_key rs \<Longrightarrow>
   get_all_id rs key = (case get_row rs key of None \<Rightarrow> [] | Some r \<Rightarrow> [r])"
proof (induction rs)
  case Nil
  then show ?case by (simp add: get_all_id_def get_row_def)
next
  case (Cons a rs)
  then have pk: "primary_key rs" and fresh: "a ''id'' \<notin> (\<lambda>r. r ''id'') ` set rs"
    by (auto simp: primary_key_def)
  show ?case
  proof (cases "a ''id'' = Some key")
    case True
    with fresh have "filter (\<lambda>r. r ''id'' = Some key) rs = []"
      by (auto simp: filter_empty_conv image_iff)
    with True show ?thesis by (simp add: get_all_id_def get_row_def)
  next
    case False
    with Cons.IH [OF pk] show ?thesis by (simp add: get_all_id_def get_row_def)
  qed
qed

subsubsection \<open>The check of ttl\<close>

lemma bad_ttl_iff: "bad_ttl v \<longleftrightarrow> \<not> positive_number v"
  by (cases v) (auto simp: bad_ttl_def positive_number_def)

lemma heartbeat_check_valid:
  assumes "status_info ''role'' \<noteq> None" "status_info ''load'' \<noteq> None"
    "status_info ''ttl'' = Some v" "positive_number v"
  shows "heartbeat_check status_info = None"
  using assms by (auto simp: heartbeat_check_def bad_ttl_iff dict_get_def)

subsubsection \<open>The conditional replace\<close>

lemma stale_timed: "timed r \<Longrightarrow> healthy now r = (\<not> stale now r)"
  by (auto dest!: timedE simp: healthy_def stale_def)

lemma get_row_put_row:
  "d ''id'' = Some key \<Longrightarrow>
   get_row (put_row rs key d) key' =
     (if key' = key then (case get_row rs key of None \<Rightarrow> None | Some r \<Rightarrow> Some d)
      else get_row rs key')"
  by (induction rs) (auto simp: get_row_def put_row_def)

lemma get_row_append:
  "get_row (rs @ [d]) key =
     (case get_row rs key of
        Some r \<Rightarrow> Some r
      | None \<Rightarrow> if d ''id'' = Some key then Some d else None)"
  by (induction rs) (auto simp: get_row_def)

lemma put_row_same:
  "primary_key rs \<Longrightarrow> get_row rs key = Some r \<Longrightarrow> put_row rs key r = rs"
proof (induction rs)
  case Nil
  then show ?case by (simp add: put_row_def)
next
  case (Cons a rs)
  then have pk: "primary_key rs" and fresh: "a ''id'' \<notin> (\<lambda>r. r ''id'') ` set rs"
    by (auto simp: primary_key_def)
  show ?case
  proof (cases "a ''id'' = Some key")
    case True
    with fresh have "map (\<lambda>x. if x ''id'' = Some key then r else x) rs = rs"
      by (intro map_idI) (auto simp: image_iff)
    with True Cons.prems(2) show ?thesis by (simp add: put_row_def get_row_def)
  next
    case False
    with Cons.IH [OF pk] Cons.prems(2) show ?thesis by (simp add: put_row_def get_row_def)
  qed
qed

lemma cond_replace_row:
  "cond_replace w role now c = (Inr [Some d], w1) \<Longrightarrow>
   get_row (table w1) (VStr role) = Some d \<and> ops w1 = Suc (ops w) \<and> ticks w1 = ticks w"
  by (auto simp: cond_replace_def run_def Let_def get_row_append get_row_put_row
      split: if_splits sum.splits option.splits)

subsubsection \<open>The candidate and the winner\<close>

lemma stamp_id [simp]: "stamp w now c ''id'' = c ''id''"
  by (simp add: stamp_def set_if_absent_def Let_def)

lemma stamp_ticks [simp]: "stamp (w\<lparr>ticks := n\<rparr>) now c = stamp w now c"
  by (simp add: stamp_def)

lemma is_unique_service_iff:
  "is_unique_service nv c \<longleftrightarrow>
   (\<forall>k v. c k = Some v \<and> k \<noteq> ''first_heartbeat'' \<and> k \<noteq> ''last_heartbeat''
      \<longrightarrow> py_eq (dict_get nv k) v)"
proof
  assume a: "is_unique_service nv c"
  show "\<forall>k v. c k = Some v \<and> k \<noteq> ''first_heartbeat'' \<and> k \<noteq> ''last_heartbeat''
      \<longrightarrow> py_eq (dict_get nv k) v"
  proof (intro allI impI)
    fix k v
    assume b: "c k = Some v \<and> k \<noteq> ''first_heartbeat'' \<and> k \<noteq> ''last_heartbeat''"
    then have "k \<in> dom c - {''first_heartbeat'', ''last_heartbeat''}" by auto
    with a have "py_eq (dict_get nv k) (dict_get c k)"
      unfolding is_unique_service_def by (rule bspec)
    with b show "py_eq (dict_get nv k) v" by (simp add: dict_get_def)
  qed
next
  assume a: "\<forall>k v. c k = Some v \<and> k \<noteq> ''first_heartbeat'' \<and> k \<noteq> ''last_heartbeat''
      \<longrightarrow> py_eq (dict_get nv k) v"
  show "is_unique_service nv c"
    unfolding is_unique_service_def
  proof
    fix k
    assume "k \<in> dom c - {''first_heartbeat'', ''last_heartbeat''}"
    then obtain v where v: "c k = Some v" "k \<noteq> ''first_heartbeat''" "k \<noteq> ''last_heartbeat''"
      by auto
    with a have "py_eq (dict_get nv k) v" by blast
    with v show "py_eq (dict_get nv k) (dict_get c k)" by (simp add: dict_get_def)
  qed
qed

lemma update_row_effect:
  assumes "get_row (table w1) (VStr role) = Some old" and "d ''id'' = Some (VStr role)"
  shows "ops (snd (update_row w1 role d)) = Suc (ops w1) \<and>
         (\<not> fails w1 (ops w1) \<longrightarrow>
            fst (update_row w1 role d) = Inr () \<and>
            get_row (table (snd (update_row w1 role d))) (VStr role) = Some (old ++ d))"
  using assms by (simp add: update_row_def run_def get_row_put_row)

lemma lookup_effect:
  "ops (snd (lookup x role n)) = Suc (ops x) \<and> table (snd (lookup x role n)) = table x"
  by (simp add: lookup_def get_all_newer_def run_def split: prod.splits sum.splits list.splits)

lemma unique_service_candidate:
  assumes ttl: "candidate ''ttl'' = Some v" "positive_number v"
    and rep: "cond_replace (w\<lparr>ticks := Suc (ticks w)\<rparr>) role (clock w (ticks w))
                (stamp w (clock w (ticks w)) (candidate(''id'' \<mapsto> VStr role))) =
              (Inr [Some returned], w1)"
  shows "unique_service w role (Some candidate) =
           (let now = clock w (ticks w);
                c = stamp w now (candidate(''id'' \<mapsto> VStr role));
                c3 = c(''first_heartbeat'' := None)
            in if is_unique_service returned c
               then (case fst (update_row w1 role c3) of
                       Inl e \<Rightarrow> (Inl e, Some c3, snd (update_row w1 role c3))
                     | Inr u \<Rightarrow>
                         (fst (lookup (snd (update_row w1 role c3)) role now), Some c3,
                          snd (lookup (snd (update_row w1 role c3)) role now)))
               else (fst (lookup w1 role now), Some c, snd (lookup w1 role now)))"
  using ttl rep
  by (simp add: unique_service_def utcnow_def claim_def bad_ttl_iff Let_def
      split: prod.splits sum.splits)

lemma unique_service_candidate_outcome:
  assumes ttl: "candidate ''ttl'' = Some v" "positive_number v"
    and rep: "cond_replace (w\<lparr>ticks := Suc (ticks w)\<rparr>) role (clock w (ticks w))
                (stamp w (clock w (ticks w)) (candidate(''id'' \<mapsto> VStr role))) =
              (Inr [Some returned], w1)"
  shows "case unique_service w role (Some candidate) of
           (res, c', w') \<Rightarrow>
             (let c = stamp w (clock w (ticks w)) (candidate(''id'' \<mapsto> VStr role))
              in (is_unique_service returned c \<longrightarrow>
                    c' = Some (c(''first_heartbeat'' := None)) \<and>
                    (\<not> fails w1 (ops w1) \<longrightarrow>
                       ops w' = ops w1 + 2 \<and>
                       get_row (table w') (VStr role) =
                         Some (returned ++ c(''first_heartbeat'' := None)))) \<and>
                 (\<not> is_unique_service returned c \<longrightarrow>
                    c' = Some c \<and> ops w' = ops w1 + 1 \<and> table w' = table w1))"
proof -
  let ?now = "clock w (ticks w)"
  let ?c = "stamp w ?now (candidate(''id'' \<mapsto> VStr role))"
  let ?c3 = "?c(''first_heartbeat'' := None)"
  have row: "get_row (table w1) (VStr role) = Some returned"
    using cond_replace_row [OF rep] by simp
  note us = unique_service_candidate [OF ttl rep]
  show ?thesis
  proof (cases "is_unique_service returned ?c")
    case won: True
    have cid: "?c3 ''id'' = Some (VStr role)" by simp
    note upd = update_row_effect [of w1 role returned ?c3, OF row cid]
    show ?thesis
    proof (cases "fails w1 (ops w1)")
      case True
      with won show ?thesis
        by (simp add: us Let_def split: sum.splits)
    next
      case False
      with upd have "fst (update_row w1 role ?c3) = Inr ()" by simp
      with won upd False show ?thesis
        by (simp add: us Let_def lookup_effect)
    qed
  next
    case False
    then show ?thesis
      by (simp add: us Let_def lookup_effect)
  qed
qed

lemmas eval_defs = example_world_def unique_service_def utcnow_def
      claim_def bad_ttl_def stamp_def set_if_absent_def cond_replace_def run_def get_row_def
      replace_choice_def is_unique_service_def py_eq_def dict_get_def update_row_def
      put_row_def lookup_def get_all_newer_def get_all_id_def heartbeat_newer_def field_def

subsubsection \<open>The clock\<close>

lemma run_clock: "run (w\<lparr>clock := clk\<rparr>) = (fst (run w), (snd (run w))\<lparr>clock := clk\<rparr>)"
  by (simp add: run_def)




lemma stamp_clock [simp]: "stamp (w\<lparr>clock := clk\<rparr>) now c = stamp w now c"
  by (simp add: stamp_def)






subsubsection \<open>The dict of the caller\<close>



subsubsection \<open>The purge\<close>

lemma since_heartbeat_gt_ttls_timed:
  "timed r \<Longrightarrow> since_heartbeat_gt_ttls now k r = Inr (stale_beyond now k r)"
  by (auto dest!: timedE simp: since_heartbeat_gt_ttls_def stale_beyond_def field_def
      mult.commute)

lemma filter_mem_imp: "filter (\<lambda>r. r \<in> set rs \<longrightarrow> Q r) rs = filter Q rs"
  by (rule filter_cong) auto

subsubsection \<open>Ordering by load\<close>












subsection \<open>heartbeat\<close>



text \<open>
  C7. When the query of \<open>heartbeat\<close> fails for a valid \<open>status_info\<close>, the call raises
  nothing: it logs the error and returns the \<open>status_info\<close> it was given.
\<close>

theorem heartbeat_storage_failure:
  assumes "status_info ''role'' \<noteq> None" "status_info ''load'' \<noteq> None"
    "status_info ''ttl'' = Some v" "positive_number v"
    and down: "fails w (ops w)"
  shows "heartbeat w status_info =
           (Inr status_info, status_info,
            w\<lparr>ops := Suc (ops w), log := log w @ [''error updating service registry'']\<rparr>)"
  using heartbeat_check_valid [OF assms(1-4)] down
  by (simp add: heartbeat_def insert_replace_def run_def)

theorem heartbeat_storage_failure_witness:
  "fst (heartbeat (unreachable_world []) worker_status) = Inr worker_status \<and>
   log (snd (snd (heartbeat (unreachable_world []) worker_status))) =
     [''error updating service registry'']"
proof -
  have "heartbeat (unreachable_world []) worker_status =
          (Inr worker_status, worker_status,
           (unreachable_world [])\<lparr>ops := Suc (ops (unreachable_world [])),
              log := log (unreachable_world []) @ [''error updating service registry'']\<rparr>)"
    by (rule heartbeat_storage_failure [where v = "VNum 60"])
      (simp_all add: worker_status_def positive_number_def unreachable_world_def
        example_world_def)
  then show ?thesis by (simp add: unreachable_world_def example_world_def)
qed

subsection \<open>unique_service\<close>

text \<open>
  C1. The conditional replace of \<open>unique_service\<close>, sent with a candidate whose \<open>id\<close>
  is \<open>role\<close>: the row keyed by \<open>role\<close> becomes the candidate when there was no such
  row, or when the row's \<open>last_heartbeat\<close> is not newer than \<open>now - ttl\<close>; otherwise
  the table is left as it was. The row returned is the row after that decision, and
  no other row changes.
\<close>

theorem cond_replace_decision:
  assumes up: "\<not> fails w (ops w)"
    and pk: "primary_key (table w)"
    and cid: "candidate ''id'' = Some (VStr role)"
    and ty: "\<forall>r. get_row (table w) (VStr role) = Some r \<longrightarrow> timed r"
  shows "case cond_replace w role now candidate of
           (res, w') \<Rightarrow>
             (let old = get_row (table w) (VStr role);
                  decided = (case old of
                               None \<Rightarrow> candidate
                             | Some r \<Rightarrow> if stale now r then candidate else r)
              in res = Inr [Some decided] \<and>
                 get_row (table w') (VStr role) = Some decided \<and>
                 (\<forall>key. key \<noteq> VStr role \<longrightarrow> get_row (table w') key = get_row (table w) key) \<and>
                 (\<forall>r. old = Some r \<and> \<not> stale now r \<longrightarrow> table w' = table w))"
proof (cases "get_row (table w) (VStr role)")
  case None
  with up cid show ?thesis
    by (auto simp: cond_replace_def run_def replace_choice_def get_row_append
        split: option.splits)
next
  case (Some r)
  with ty have t: "timed r" by simp
  show ?thesis
  proof (cases "stale now r")
    case True
    with Some t up cid show ?thesis
      by (simp add: cond_replace_def run_def replace_choice_def heartbeat_newer_timed
          stale_timed get_row_put_row)
  next
    case False
    from Some have "r ''id'' = Some (VStr role)"
      by (auto simp: get_row_def find_Some_iff)
    with False Some t up cid pk show ?thesis
      by (simp add: cond_replace_def run_def replace_choice_def heartbeat_newer_timed
          stale_timed put_row_same)
  qed
qed

theorem cond_replace_decision_witness:
  "fst (cond_replace (example_world [lapsed]) ''leader'' 1000 challenger) = Inr [Some challenger] \<and>
   get_row (table (snd (cond_replace (example_world [lapsed]) ''leader'' 1000 challenger)))
     (VStr ''leader'') = Some challenger"
  using cond_replace_decision [of "example_world [lapsed]" challenger "''leader''" 1000]
  by (simp add: example_world_def primary_key_def get_row_def lapsed_def timed_def stale_def
      challenger_def Let_def split: prod.splits)

text \<open>
  C2, as the code has it. The candidate is taken for the winner iff every field of
  the candidate other than \<open>first_heartbeat\<close> and \<open>last_heartbeat\<close> is equal to what
  \<open>get\<close> gives for it on the returned row; a field that only the returned row has
  is not compared. The winner loses its \<open>first_heartbeat\<close> and is merged into the row
  by one more query; for any other candidate nothing more is written.
\<close>

theorem winner_iff_candidate_fields:
  assumes ttl: "candidate ''ttl'' = Some v" "positive_number v"
    and rep: "cond_replace (w\<lparr>ticks := Suc (ticks w)\<rparr>) role (clock w (ticks w))
                (stamp w (clock w (ticks w)) (candidate(''id'' \<mapsto> VStr role))) =
              (Inr [Some returned], w1)"
  shows "case unique_service w role (Some candidate) of
           (res, c', w') \<Rightarrow>
             (let c = stamp w (clock w (ticks w)) (candidate(''id'' \<mapsto> VStr role));
                  won = (\<forall>k v. c k = Some v \<and> k \<noteq> ''first_heartbeat'' \<and> k \<noteq> ''last_heartbeat''
                           \<longrightarrow> py_eq (dict_get returned k) v)
              in (won \<longrightarrow>
                    c' = Some (c(''first_heartbeat'' := None)) \<and>
                    (\<not> fails w1 (ops w1) \<longrightarrow>
                       ops w' = ops w1 + 2 \<and>
                       get_row (table w') (VStr role) =
                         Some (returned ++ c(''first_heartbeat'' := None)))) \<and>
                 (\<not> won \<longrightarrow> c' = Some c \<and> ops w' = ops w1 + 1 \<and> table w' = table w1))"
  using unique_service_candidate_outcome [OF assms]
  unfolding Let_def is_unique_service_iff .

theorem winner_iff_candidate_fields_witness:
  "fst (snd (unique_service (example_world [incumbent]) ''leader'' (Some rival))) =
     Some (stamp (example_world [incumbent]) 1000 (rival(''id'' \<mapsto> VStr ''leader''))) \<and>
   ops (snd (snd (unique_service (example_world [incumbent]) ''leader'' (Some rival)))) = 2 \<and>
   table (snd (snd (unique_service (example_world [incumbent]) ''leader'' (Some rival)))) =
     [incumbent]"
proof -
  let ?w = "example_world [incumbent]"
  have rep: "cond_replace (?w\<lparr>ticks := Suc (ticks ?w)\<rparr>) ''leader'' (clock ?w (ticks ?w))
               (stamp ?w (clock ?w (ticks ?w)) (rival(''id'' \<mapsto> VStr ''leader''))) =
             (Inr [Some incumbent], ?w\<lparr>ticks := 1, ops := 1\<rparr>)"
    by (simp add: example_world_def cond_replace_def run_def get_row_def replace_choice_def
        heartbeat_newer_def field_def incumbent_def put_row_def stamp_def set_if_absent_def
        rival_def)
  have ttl: "rival ''ttl'' = Some (VNum 60)" "positive_number (VNum 60)"
    by (simp_all add: rival_def positive_number_def)
  have lost: "\<not> is_unique_service incumbent
                 (stamp ?w (clock ?w (ticks ?w)) (rival(''id'' \<mapsto> VStr ''leader'')))"
    by (simp add: is_unique_service_def example_world_def stamp_def set_if_absent_def
        rival_def incumbent_def dict_get_def py_eq_def insert_Diff_if)
  from winner_iff_candidate_fields [OF ttl rep] lost show ?thesis
    unfolding Let_def is_unique_service_iff [symmetric]
    by (simp add: example_world_def split: prod.splits)
qed

text \<open>
  The returned row has a field \<open>note\<close> that the candidate has not, and the candidate
  is taken for the winner all the same: the heartbeat is sent.
\<close>

theorem winner_ignores_extra_row_fields:
  "dict_get incumbent ''note'' = VStr ''primary'' \<and>
   dict_get (stamp (example_world [incumbent]) 1000
               (ttl_only_candidate(''id'' \<mapsto> VStr ''leader''))) ''note'' = VNone \<and>
   fst (cond_replace ((example_world [incumbent])\<lparr>ticks := 1\<rparr>) ''leader'' 1000
          (stamp (example_world [incumbent]) 1000
             (ttl_only_candidate(''id'' \<mapsto> VStr ''leader'')))) = Inr [Some incumbent] \<and>
   is_unique_service incumbent
     (stamp (example_world [incumbent]) 1000 (ttl_only_candidate(''id'' \<mapsto> VStr ''leader''))) \<and>
   ops (snd (snd (unique_service (example_world [incumbent]) ''leader''
                    (Some ttl_only_candidate)))) = 3 \<and>
   dict_get (hd (table (snd (snd (unique_service (example_world [incumbent]) ''leader''
                    (Some ttl_only_candidate)))))) ''last_heartbeat'' = VTime 1000"
  by (simp add: eval_defs incumbent_def ttl_only_candidate_def insert_Diff_if)




text \<open>
  C10. \<open>unique_service(role)\<close> without a candidate writes nothing, and when its query
  is answered it returns the record whose \<open>id\<close> is \<open>role\<close> if that record is healthy at
  the time the call read, and \<open>None\<close> otherwise.
\<close>

theorem unique_service_no_candidate:
  "table (snd (snd (unique_service w role None))) = table w \<and>
   (\<not> fails w (ops w) \<and> primary_key (table w) \<and>
    (\<forall>r. get_row (table w) (VStr role) = Some r \<longrightarrow> timed r) \<longrightarrow>
    fst (unique_service w role None) =
      Inr (case get_row (table w) (VStr role) of
             None \<Rightarrow> None
           | Some r \<Rightarrow> if healthy (clock w (ticks w)) r then Some r else None))"
proof (intro conjI impI)
  show "table (snd (snd (unique_service w role None))) = table w"
    by (simp add: unique_service_def utcnow_def lookup_def get_all_newer_def run_def
        split: prod.splits sum.splits list.splits)
next
  assume h: "\<not> fails w (ops w) \<and> primary_key (table w) \<and>
    (\<forall>r. get_row (table w) (VStr role) = Some r \<longrightarrow> timed r)"
  show "fst (unique_service w role None) =
      Inr (case get_row (table w) (VStr role) of
             None \<Rightarrow> None
           | Some r \<Rightarrow> if healthy (clock w (ticks w)) r then Some r else None)"
  proof (cases "get_row (table w) (VStr role)")
    case None
    with h show ?thesis
      by (simp add: unique_service_def utcnow_def lookup_def get_all_newer_def run_def
          get_all_id_primary_key)
  next
    case (Some r)
    with h have "timed r" by simp
    with Some h show ?thesis
      by (simp add: unique_service_def utcnow_def lookup_def get_all_newer_def run_def
          get_all_id_primary_key heartbeat_newer_timed)
  qed
qed

theorem unique_service_no_candidate_witness:
  "table (snd (snd (unique_service (example_world [incumbent]) ''leader'' None))) = [incumbent] \<and>
   fst (unique_service (example_world [incumbent]) ''leader'' None) = Inr (Some incumbent)"
  using unique_service_no_candidate [of "example_world [incumbent]" "''leader''"]
  by (simp add: example_world_def primary_key_def get_row_def incumbent_def timed_def
      healthy_def)




subsection \<open>The caller's dict\<close>




subsection \<open>healthy_service and purge_stale_services\<close>



text \<open>
  C8. \<open>purge_stale_services()\<close>, called without an argument on a table whose records
  hold a time and a numeric \<open>ttl\<close>, deletes the records whose staleness exceeds twice
  their \<open>ttl\<close> and no other: a record that is unhealthy and not that stale stays.
\<close>

theorem purge_default_two_ttls:
  assumes up: "\<not> fails w (ops w)"
    and ty: "\<forall>r\<in>set (table w). timed r"
  shows "fst (purge_stale_services w None) =
           Inr (length (filter (stale_beyond (clock w (ticks w)) 2) (table w))) \<and>
         table (snd (purge_stale_services w None)) =
           filter (\<lambda>r. \<not> stale_beyond (clock w (ticks w)) 2 r) (table w) \<and>
         (\<forall>r\<in>set (table w).
            \<not> healthy (clock w (ticks w)) r \<and> \<not> stale_beyond (clock w (ticks w)) 2 r \<longrightarrow>
            r \<in> set (table (snd (purge_stale_services w None))))"
proof -
  let ?now = "clock w (ticks w)"
  from ty have "reql_filter (since_heartbeat_gt_ttls ?now 2) (table w) =
                  Inr (filter (stale_beyond ?now 2) (table w))"
    by (intro reql_filter_total) (simp add: since_heartbeat_gt_ttls_timed)
  with up show ?thesis
    by (simp add: purge_stale_services_def run_def utcnow_def filter_mem_imp)
qed

theorem purge_default_two_ttls_witness:
  "fst (purge_stale_services (example_world [incumbent, lapsed, long_dead]) None) = Inr 1 \<and>
   table (snd (purge_stale_services (example_world [incumbent, lapsed, long_dead]) None)) =
     [incumbent, lapsed]"
  using purge_default_two_ttls [of "example_world [incumbent, lapsed, long_dead]"]
  by (simp add: example_world_def timed_def stale_beyond_def incumbent_def lapsed_def
      long_dead_def)

end
